theory Spec2Isabelle
  imports Main "HOL-Library.Sublist"
begin

section \<open>Data model of the caching proxy (src/index.js)\<close>

text \<open>
  Bodies are byte sequences; an Isabelle \<open>char\<close> is one byte. Header tables are
  maps from the lower-cased header name to its value: Node keeps both
  \<open>proxyRes.headers\<close> and the header table of a server response keyed that way,
  so \<open>"X-Cache"\<close> is the key \<open>x-cache\<close> and \<open>"Content-Type"\<close> is \<open>content-type\<close>.
\<close>

type_synonym bytes = string
type_synonym header_map = "string \<rightharpoonup> string"

text \<open>
  The inbound client request \<open>req\<close>: method, request target, headers, and the body
  chunks its stream has still to deliver.
\<close>

record request =
  "method" :: string
  url :: string
  req_headers :: header_map
  chunks :: "bytes list"

text \<open>The fields of a WHATWG \<open>URL\<close> object that the program reads.\<close>

record URL =
  href :: string
  protocol :: string
  url_origin :: string

text \<open>
  The request issued to the origin by \<open>protocol.request(targetUrl, {method})\<close>
  followed by \<open>req.pipe(proxyReq)\<close>: the transport chosen from the scheme, the
  method, the target and the bytes piped into it.
\<close>

record outbound =
  out_https :: bool
  out_url :: URL
  out_method :: string
  out_body :: bytes

text \<open>The origin's answer \<open>proxyRes\<close>, with the chunks its \<open>data\<close> events deliver.\<close>

record proxyRes =
  statusCode :: nat
  headers :: header_map
  data :: "bytes list"

text \<open>A value of the global \<open>cache\<close> map, and the map itself.\<close>

record cache_entry =
  e_headers :: header_map
  e_body :: bytes

type_synonym cache = "string \<rightharpoonup> cache_entry"

text \<open>What the client receives through \<open>res\<close>.\<close>

record response =
  status :: nat
  res_headers :: header_map
  res_body :: bytes

text \<open>
  The two ways a request is left without a response. \<open>new URL(...)\<close> throws a
  \<open>TypeError\<close> on input it cannot parse, and nothing in the program catches it.
  When the origin's response has started and the connection is then lost, the
  request's \<open>error\<close> handler does not run, the response's \<open>end\<close> event never
  comes, and the program listens for nothing else on \<open>proxyRes\<close>.
\<close>

datatype fault = InvalidURL | ResponseCutOff

text \<open>
  The effects of handling one request, in program order: console lines, requests
  sent to the origin, and writes to the cache.
\<close>

datatype event =
    LogChecking string
  | LogServing string
  | LogMiss string
  | Request outbound
  | LogRedirecting string
  | CacheSet string cache_entry
  | LogCaching string nat
  | LogNonCacheable nat string
  | ErrTooManyRedirects
  | ErrFetching string

record outcome =
  store :: cache
  reply :: "fault + response"
  trace :: "event list"

text \<open>
  What a request to the origin comes to, as the program's listeners see it:
  \<^item> \<open>Failed message\<close>: the request emits \<open>error\<close> with \<open>err.message\<close> before any
    response (connection refused, DNS failure);
  \<^item> \<open>Answered proxyRes\<close>: the response arrives whole, its \<open>data\<close> events followed
    by \<open>end\<close>;
  \<^item> \<open>Cut proxyRes\<close>: the response starts (status, headers and the chunks in
    \<open>data\<close> arrive) and the connection is lost before its end, so that neither
    \<open>end\<close> on the response nor \<open>error\<close> on the request is emitted.
\<close>

datatype origin_answer = Failed string | Answered proxyRes | Cut proxyRes

text \<open>
  The collaborators that are not part of the repository: the SHA-256 hex digest of
  \<open>crypto\<close>, the \<open>URL\<close> constructor (\<open>new_URL E input base\<close>, \<open>None\<close> when it
  throws), and the origin server behind \<open>http.request\<close> and \<open>https.request\<close>.
\<close>

record env =
  sha256hex :: "bytes \<Rightarrow> string"
  new_URL :: "string \<Rightarrow> string \<Rightarrow> URL option"
  origin_server :: "outbound \<Rightarrow> origin_answer"

section \<open>Library behaviour used by the program\<close>

text \<open>
  \<open>s.replace(pat, "")\<close> with a string pattern: the first occurrence of \<open>pat\<close> in
  \<open>s\<close> is removed, and \<open>s\<close> is returned as it is when there is none.
\<close>

fun replace_empty :: "string \<Rightarrow> string \<Rightarrow> string" where
  "replace_empty [] pat = []"
| "replace_empty (c # cs) pat =
     (if prefix pat (c # cs) then drop (length pat) (c # cs)
      else c # replace_empty cs pat)"

text \<open>
  JavaScript truthiness of \<open>proxyRes.headers.location\<close>: \<open>undefined\<close> and the empty
  string are falsy.
\<close>

definition truthy :: "string option \<Rightarrow> bool" where
  "truthy v = (case v of None \<Rightarrow> False | Some s \<Rightarrow> s \<noteq> [])"

text \<open>
  \<open>res.setHeader\<close> calls, then \<open>res.writeHead(code, hs)\<close>, then \<open>res.end(b)\<close>:
  Node merges the headers set beforehand (\<open>pending\<close>) with those passed to
  \<open>writeHead\<close>, and the ones passed to \<open>writeHead\<close> take precedence.
\<close>

definition writeHead_end :: "header_map \<Rightarrow> nat \<Rightarrow> header_map \<Rightarrow> bytes \<Rightarrow> response" where
  "writeHead_end pending code hs b = \<lparr>status = code, res_headers = pending ++ hs, res_body = b\<rparr>"

section \<open>The program\<close>

text \<open>
  \<open>generateCacheKey\<close> (lines 12-20) returns the string built at line 13. For a
  \<open>POST\<close> it also registers a \<open>data\<close> listener that appends the digest of each
  chunk to its local variable \<open>key\<close>. The listener runs on later turns of the event
  loop, after line 19 has returned the value the variable had then; the second
  component is that listener, as a function from the variable's value and a chunk
  to the variable's new value.
\<close>

definition generateCacheKey ::
  "(bytes \<Rightarrow> string) \<Rightarrow> request \<Rightarrow> string \<times> (string \<Rightarrow> bytes \<Rightarrow> string) option" where
  "generateCacheKey sha256 req =
     (let key = method req @ ''|'' @ url req
      in (key,
          if method req = ''POST''
          then Some (\<lambda>key chunk. key @ ''|'' @ sha256 chunk)
          else None))"

text \<open>
  The request to the origin (lines 25, 28-30 and 89): \<open>https\<close> when the target's
  scheme is \<open>https:\<close> and \<open>http\<close> otherwise, the client's method, and the client's
  body stream piped into it. No other field of \<open>req\<close> is read.
\<close>

definition proxyRequest :: "URL \<Rightarrow> request \<Rightarrow> outbound" where
  "proxyRequest targetUrl req =
     \<lparr>out_https = (protocol targetUrl = ''https:''),
      out_url = targetUrl,
      out_method = method req,
      out_body = concat (chunks req)\<rparr>"

text \<open>
  \<open>fetchFromOrigin\<close> (lines 23-90). The callbacks run in sequence for one request:
  the request is sent and the client's remaining body chunks are piped into it,
  then the \<open>error\<close> handler runs, or the response is buffered and the \<open>end\<close>
  handler runs, or the response is cut off and no handler that writes to \<open>res\<close>
  runs. A stream delivers its chunks once, so the request object handed to
  the next hop has none left. \<open>redirectCount\<close> is declared inside the \<open>end\<close>
  handler, as in the source. The result is \<open>None\<close> when the chain of calls never
  ends.
\<close>

partial_function (option) fetchFromOrigin ::
  "env \<Rightarrow> string \<Rightarrow> string \<Rightarrow> request \<Rightarrow> cache \<Rightarrow> event list \<Rightarrow> outcome option" where
  "fetchFromOrigin E origin path req cache tr =
     (case new_URL E path origin of
        None \<Rightarrow> Some \<lparr>store = cache, reply = Inl InvalidURL, trace = tr\<rparr>
      | Some targetUrl \<Rightarrow>
          (let key = fst (generateCacheKey (sha256hex E) req);
               proxyReq = proxyRequest targetUrl req;
               req' = req\<lparr>chunks := []\<rparr>;
               tr1 = tr @ [Request proxyReq]
           in case origin_server E proxyReq of
                Failed message \<Rightarrow>
                  Some \<lparr>store = cache,
                        reply = Inr (writeHead_end Map.empty 500
                                       [''content-type'' \<mapsto> ''text/plain'']
                                       (''Error fetching from origin: '' @ message)),
                        trace = tr1 @ [ErrFetching message]\<rparr>
              | Cut proxyRes \<Rightarrow>
                  Some \<lparr>store = cache, reply = Inl ResponseCutOff, trace = tr1\<rparr>
              | Answered proxyRes \<Rightarrow>
                  (let body = concat (data proxyRes);
                       statusCode = statusCode proxyRes;
                       redirectCount = (0::nat)
                   in if statusCode \<ge> 300 \<and> statusCode < 400
                         \<and> truthy (headers proxyRes ''location'')
                      then
                        (case new_URL E (the (headers proxyRes ''location''))
                                (url_origin targetUrl) of
                           None \<Rightarrow>
                             Some \<lparr>store = cache, reply = Inl InvalidURL, trace = tr1\<rparr>
                         | Some u \<Rightarrow>
                             (let redirectUrl = href u;
                                  tr2 = tr1 @ [LogRedirecting redirectUrl]
                              in if redirectCount > 5
                                 then Some \<lparr>store = cache,
                                            reply = Inr (writeHead_end Map.empty 500
                                                           [''content-type'' \<mapsto> ''text/plain'']
                                                           ''Too many redirects''),
                                            trace = tr2 @ [ErrTooManyRedirects]\<rparr>
                                 else (let redirectCount = redirectCount + 1
                                       in fetchFromOrigin E origin
                                            (replace_empty redirectUrl origin) req' cache tr2)))
                      else if statusCode \<ge> 200 \<and> statusCode < 300
                      then
                        (let entry = \<lparr>e_headers = headers proxyRes, e_body = body\<rparr>
                         in Some \<lparr>store = cache(key \<mapsto> entry),
                                  reply = Inr (writeHead_end [''x-cache'' \<mapsto> ''MISS''] statusCode
                                                 (headers proxyRes) body),
                                  trace = tr1 @ [CacheSet key entry, LogCaching key statusCode]\<rparr>)
                      else
                        Some \<lparr>store = cache,
                              reply = Inr (writeHead_end Map.empty statusCode
                                             (headers proxyRes) body),
                              trace = tr1 @ [LogNonCacheable statusCode key]\<rparr>)))"

text \<open>
  \<open>handleRequest\<close> (lines 93-107): look the key up in the cache; serve the stored
  entry with status 200, or fetch from the origin.
\<close>

definition handleRequest :: "env \<Rightarrow> string \<Rightarrow> request \<Rightarrow> cache \<Rightarrow> outcome option" where
  "handleRequest E origin req cache =
     (let key = fst (generateCacheKey (sha256hex E) req);
          tr = [LogChecking key]
      in case cache key of
           Some cachedResponse \<Rightarrow>
             Some \<lparr>store = cache,
                   reply = Inr (writeHead_end [''x-cache'' \<mapsto> ''HIT''] 200
                                  (e_headers cachedResponse) (e_body cachedResponse)),
                   trace = tr @ [LogServing key]\<rparr>
         | None \<Rightarrow> fetchFromOrigin E origin (url req) req cache (tr @ [LogMiss key]))"

text \<open>\<open>clearCache\<close> (lines 110-113).\<close>

definition clearCache :: "cache \<Rightarrow> cache" where
  "clearCache cache = Map.empty"

section \<open>Notions used to state the properties\<close>

text \<open>
  The key derivation as the specification words it (section 4.1): \<open>METHOD|PATH\<close>, and
  \<open>METHOD|PATH|hex(sha256(body))\<close> when a body is present, the digest taken over the
  complete body. It is compared with \<open>generateCacheKey\<close> below.
\<close>

definition deriveKey_spec :: "(bytes \<Rightarrow> string) \<Rightarrow> string \<Rightarrow> string \<Rightarrow> bytes option \<Rightarrow> string" where
  "deriveKey_spec sha256 m p b =
     (case b of
        None \<Rightarrow> m @ ''|'' @ p
      | Some body \<Rightarrow> m @ ''|'' @ p @ ''|'' @ sha256 body)"

text \<open>The test of lines 53-57, and the test of line 65.\<close>

definition isRedirect :: "proxyRes \<Rightarrow> bool" where
  "isRedirect r =
     (statusCode r \<ge> 300 \<and> statusCode r < 400 \<and> truthy (headers r ''location''))"

definition cacheable :: "nat \<Rightarrow> bool" where
  "cacheable code = (code \<ge> 200 \<and> code < 300)"

text \<open>
  An origin that answers every request with a redirect carrying a \<open>Location\<close>.
\<close>

definition redirecting :: "origin_answer \<Rightarrow> bool" where
  "redirecting a = (case a of Answered r \<Rightarrow> isRedirect r | _ \<Rightarrow> False)"

text \<open>
  The console line or error line that each of the four outcome paths prints, and the
  writes to the cache, for counting them in a trace.
\<close>

fun path_marker :: "event \<Rightarrow> bool" where
  "path_marker (LogServing k) = True"
| "path_marker (LogCaching k c) = True"
| "path_marker (LogNonCacheable c k) = True"
| "path_marker ErrTooManyRedirects = True"
| "path_marker (ErrFetching m) = True"
| "path_marker e = False"

fun cache_write :: "event \<Rightarrow> bool" where
  "cache_write (CacheSet k e) = True"
| "cache_write e = False"

section \<open>A concrete origin and concrete requests\<close>

text \<open>
  The scenarios run against the origin \<open>http://o\<close>. On a base without a path and an
  input that is an absolute path, \<open>new URL(input, base)\<close> has the \<open>href\<close>
  \<open>base + input\<close> and the origin \<open>base\<close>; \<open>plain_URL\<close> is the constructor on those
  inputs, the only ones the scenarios use. The digest plays no part in them.
\<close>

definition plain_URL :: "string \<Rightarrow> string \<Rightarrow> URL option" where
  "plain_URL input base = Some \<lparr>href = base @ input, protocol = ''http:'', url_origin = base\<rparr>"

definition example_env :: "(outbound \<Rightarrow> origin_answer) \<Rightarrow> env" where
  "example_env server = \<lparr>sha256hex = (\<lambda>b. ''00''), new_URL = plain_URL, origin_server = server\<rparr>"

definition get_a :: request where
  "get_a = \<lparr>method = ''GET'', url = ''/a'', req_headers = Map.empty, chunks = []\<rparr>"

definition post_a :: "bytes \<Rightarrow> request" where
  "post_a b = \<lparr>method = ''POST'', url = ''/a'', req_headers = Map.empty, chunks = [b]\<rparr>"

text \<open>\<open>200\<close> with body \<open>x\<close> for every request.\<close>

definition ok_server :: "outbound \<Rightarrow> origin_answer" where
  "ok_server q = Answered \<lparr>statusCode = 200, headers = Map.empty, data = [''x'']\<rparr>"

text \<open>\<open>200\<close> with the request's body sent back.\<close>

definition echo_server :: "outbound \<Rightarrow> origin_answer" where
  "echo_server q = Answered \<lparr>statusCode = 200, headers = Map.empty, data = [out_body q]\<rparr>"

text \<open>\<open>200\<close> with body \<open>x\<close> and an \<open>X-Cache\<close> header of the origin's own.\<close>

definition xcache_server :: "outbound \<Rightarrow> origin_answer" where
  "xcache_server q =
     Answered \<lparr>statusCode = 200, headers = [''x-cache'' \<mapsto> ''ORIGIN''], data = [''x'']\<rparr>"


text \<open>Every request is redirected to \<open>/a\<close>.\<close>

definition loop_server :: "outbound \<Rightarrow> origin_answer" where
  "loop_server q = Answered \<lparr>statusCode = 302, headers = [''location'' \<mapsto> ''/a''], data = []\<rparr>"

text \<open>\<open>404\<close> for every request.\<close>

definition notfound_server :: "outbound \<Rightarrow> origin_answer" where
  "notfound_server q =
     Answered \<lparr>statusCode = 404, headers = [''content-type'' \<mapsto> ''text/html''], data = [''gone'']\<rparr>"

text \<open>\<open>304\<close> without a \<open>Location\<close> for every request.\<close>

definition not_modified_server :: "outbound \<Rightarrow> origin_answer" where
  "not_modified_server q = Answered \<lparr>statusCode = 304, headers = [''etag'' \<mapsto> ''v1''], data = []\<rparr>"

text \<open>
  The response starts, \<open>200\<close> with the first chunk of its body, and the connection
  is lost before the rest arrives.
\<close>

definition cut_off_server :: "outbound \<Rightarrow> origin_answer" where
  "cut_off_server q = Cut \<lparr>statusCode = 200, headers = Map.empty, data = [''x'']\<rparr>"

text \<open>No connection can be made.\<close>

definition down_server :: "outbound \<Rightarrow> origin_answer" where
  "down_server q = Failed ''connect ECONNREFUSED''"

section \<open>One call of \<open>fetchFromOrigin\<close>, branch by branch\<close>

lemma generateCacheKey_fst [simp]:
  "fst (generateCacheKey sha256 req) = method req @ ''|'' @ url req"
  by (simp add: generateCacheKey_def Let_def)

text \<open>
  The listener of a \<open>POST\<close> appends one digest for each chunk it is given, to a
  variable that nothing reads after \<open>generateCacheKey\<close> has returned.
\<close>

lemma generateCacheKey_listener:
  "snd (generateCacheKey sha256 req) =
     (if method req = ''POST'' then Some (\<lambda>key chunk. key @ ''|'' @ sha256 chunk) else None)"
  by (simp add: generateCacheKey_def Let_def)

lemma listener_digests_each_chunk:
  "(case snd (generateCacheKey sha256 (post_a b)) of
      None \<Rightarrow> False
    | Some listener \<Rightarrow>
        foldl listener k [c1, c2] = k @ ''|'' @ sha256 c1 @ ''|'' @ sha256 c2)"
  by (simp add: generateCacheKey_listener post_a_def)

lemma map_add_fresh: "m k = None \<Longrightarrow> [k \<mapsto> v] ++ m = m(k \<mapsto> v)"
  by (rule ext) (simp add: map_add_def split: option.splits)

lemma example_env_sel [simp]:
  "new_URL (example_env s) = plain_URL"
  "origin_server (example_env s) = s"
  "sha256hex (example_env s) = (\<lambda>b. ''00'')"
  by (simp_all add: example_env_def)

lemma handleRequest_miss:
  "cache (method req @ ''|'' @ url req) = None \<Longrightarrow>
   handleRequest E origin req cache =
     fetchFromOrigin E origin (url req) req cache
       [LogChecking (method req @ ''|'' @ url req), LogMiss (method req @ ''|'' @ url req)]"
  by (simp add: handleRequest_def Let_def)

lemma handleRequest_hit:
  "cache (method req @ ''|'' @ url req) = Some e \<Longrightarrow>
   handleRequest E origin req cache =
     Some \<lparr>store = cache,
           reply = Inr \<lparr>status = 200, res_headers = [''x-cache'' \<mapsto> ''HIT''] ++ e_headers e,
                        res_body = e_body e\<rparr>,
           trace = [LogChecking (method req @ ''|'' @ url req),
                    LogServing (method req @ ''|'' @ url req)]\<rparr>"
  by (simp add: handleRequest_def writeHead_end_def Let_def)

lemma fetch_invalid_url:
  "new_URL E path origin = None \<Longrightarrow>
   fetchFromOrigin E origin path req cache tr =
     Some \<lparr>store = cache, reply = Inl InvalidURL, trace = tr\<rparr>"
  by (subst fetchFromOrigin.simps) simp


lemma fetch_cacheable:
  "new_URL E path origin = Some u \<Longrightarrow> origin_server E (proxyRequest u req) = Answered r \<Longrightarrow>
   \<not> isRedirect r \<Longrightarrow> cacheable (statusCode r) \<Longrightarrow>
   fetchFromOrigin E origin path req cache tr =
     Some \<lparr>store = cache(method req @ ''|'' @ url req \<mapsto>
                     \<lparr>e_headers = headers r, e_body = concat (data r)\<rparr>),
           reply = Inr \<lparr>status = statusCode r,
                        res_headers = [''x-cache'' \<mapsto> ''MISS''] ++ headers r,
                        res_body = concat (data r)\<rparr>,
           trace = tr @ [Request (proxyRequest u req),
                         CacheSet (method req @ ''|'' @ url req)
                           \<lparr>e_headers = headers r, e_body = concat (data r)\<rparr>,
                         LogCaching (method req @ ''|'' @ url req) (statusCode r)]\<rparr>"
  by (subst fetchFromOrigin.simps)
     (auto simp add: isRedirect_def cacheable_def Let_def writeHead_end_def)

lemma fetch_other:
  "new_URL E path origin = Some u \<Longrightarrow> origin_server E (proxyRequest u req) = Answered r \<Longrightarrow>
   \<not> isRedirect r \<Longrightarrow> \<not> cacheable (statusCode r) \<Longrightarrow>
   fetchFromOrigin E origin path req cache tr =
     Some \<lparr>store = cache,
           reply = Inr \<lparr>status = statusCode r, res_headers = headers r,
                        res_body = concat (data r)\<rparr>,
           trace = tr @ [Request (proxyRequest u req),
                         LogNonCacheable (statusCode r) (method req @ ''|'' @ url req)]\<rparr>"
  by (subst fetchFromOrigin.simps)
     (auto simp add: isRedirect_def cacheable_def Let_def writeHead_end_def)

section \<open>Runs that end\<close>

text \<open>
  Rule induction over the calls of \<open>fetchFromOrigin\<close> that return. When the origin
  redirects every request, the only way out of the chain is a \<open>Location\<close> that
  \<open>new URL\<close> rejects.
\<close>

lemma fetch_always_redirecting:
  "fetchFromOrigin E origin path req cache tr = Some out \<Longrightarrow>
   (\<forall>q. redirecting (origin_server E q)) \<Longrightarrow> reply out = Inl InvalidURL"
  apply (induction rule: fetchFromOrigin.raw_induct[rotated 1, consumes 1])
  apply (auto simp: Let_def redirecting_def isRedirect_def split: option.splits sum.splits origin_answer.splits if_splits)
  done

lemma fetch_crash_needs_bad_url:
  "fetchFromOrigin E origin path req cache tr = Some out \<Longrightarrow>
   reply out = Inl InvalidURL \<Longrightarrow> \<exists>input base. new_URL E input base = None"
  apply (induction rule: fetchFromOrigin.raw_induct[rotated 1, consumes 1])
  apply (auto simp: Let_def split: option.splits sum.splits origin_answer.splits if_splits)
  done

lemma always_redirecting_never_returns:
  assumes "\<forall>q. redirecting (origin_server E q)"
    and "\<forall>input base. new_URL E input base \<noteq> None"
  shows "fetchFromOrigin E origin path req cache tr = None"
proof (cases "fetchFromOrigin E origin path req cache tr")
  case None
  then show ?thesis .
next
  case (Some out)
  with assms(1) have "reply out = Inl InvalidURL"
    by (simp add: fetch_always_redirecting)
  from fetch_crash_needs_bad_url [OF Some this] assms(2) show ?thesis
    by blast
qed

lemma loop_server_redirecting:
  "\<forall>q. redirecting (origin_server (example_env loop_server) q)"
  by (simp add: redirecting_def isRedirect_def loop_server_def truthy_def)

text \<open>The branch of line 43 is never taken: \<open>redirectCount\<close> is \<open>0\<close> whenever it is tested.\<close>

lemma fetch_limit_unreachable:
  "fetchFromOrigin E origin path req cache tr = Some out \<Longrightarrow>
   ErrTooManyRedirects \<notin> set tr \<Longrightarrow> ErrTooManyRedirects \<notin> set (trace out)"
  apply (induction rule: fetchFromOrigin.raw_induct[rotated 1, consumes 1])
  apply (auto simp: Let_def split: option.splits sum.splits origin_answer.splits if_splits)
  done

text \<open>
  A call that writes a response has printed the line of exactly one outcome path,
  has written to the cache at most once, and has changed the cache at no key but
  the request's.
\<close>

lemma fetch_one_path:
  "fetchFromOrigin E origin path req cache tr = Some out \<Longrightarrow> reply out = Inr r \<Longrightarrow>
   length (filter path_marker (trace out)) = Suc (length (filter path_marker tr))"
  apply (induction rule: fetchFromOrigin.raw_induct[rotated 1, consumes 1])
  apply (auto simp: Let_def split: option.splits sum.splits origin_answer.splits if_splits)
  done

lemma fetch_one_write:
  "fetchFromOrigin E origin path req cache tr = Some out \<Longrightarrow>
   length (filter cache_write (trace out)) \<le> Suc (length (filter cache_write tr))"
  apply (induction rule: fetchFromOrigin.raw_induct[rotated 1, consumes 1])
  apply (fastforce simp: Let_def split: option.splits sum.splits origin_answer.splits if_splits)
  done

lemma fetch_store_frame:
  "fetchFromOrigin E origin path req cache tr = Some out \<Longrightarrow>
   k \<noteq> method req @ ''|'' @ url req \<Longrightarrow> store out k = cache k"
  apply (induction rule: fetchFromOrigin.raw_induct[rotated 1, consumes 1])
  apply (auto simp: Let_def split: option.splits sum.splits origin_answer.splits if_splits)
  done

lemma completed_request_one_path:
  assumes "handleRequest E origin req cache = Some out" and "reply out = Inr r"
  shows "length (filter path_marker (trace out)) = 1
         \<and> length (filter cache_write (trace out)) \<le> 1
         \<and> (\<forall>k. k \<noteq> method req @ ''|'' @ url req \<longrightarrow> store out k = cache k)"
proof (cases "cache (method req @ ''|'' @ url req)")
  case (Some e)
  from assms(1) show ?thesis
    by (auto simp add: handleRequest_hit [where cache = cache and req = req, OF Some])
next
  case None
  with assms(1) have run: "fetchFromOrigin E origin (url req) req cache
      [LogChecking (method req @ ''|'' @ url req), LogMiss (method req @ ''|'' @ url req)] = Some out"
    by (simp add: handleRequest_miss)
  from fetch_one_path [OF run assms(2)] fetch_one_write [OF run] fetch_store_frame [OF run]
  show ?thesis by simp
qed

text \<open>The client's request headers play no part in a call.\<close>

lemma proxyRequest_req_headers [simp]:
  "proxyRequest u (req\<lparr>req_headers := hs\<rparr>) = proxyRequest u req"
  by (simp add: proxyRequest_def)

lemma request_update_swap:
  "req\<lparr>chunks := c, req_headers := hs\<rparr> = req\<lparr>req_headers := hs, chunks := c\<rparr>"
  by (cases req) simp

lemma fetch_req_headers_le:
  "fetchFromOrigin E origin path req cache tr = Some out \<Longrightarrow>
   fetchFromOrigin E origin path (req\<lparr>req_headers := hs\<rparr>) cache tr = Some out"
  apply (induction rule: fetchFromOrigin.raw_induct[rotated 1, consumes 1])
  apply (subst fetchFromOrigin.simps)
  apply (auto simp: Let_def split: option.splits sum.splits origin_answer.splits if_splits)
  subgoal premises prems
    using prems(1) [OF prems(4)] by (simp add: request_update_swap)
  done

lemma fetch_req_headers:
  "fetchFromOrigin E origin path (req\<lparr>req_headers := hs\<rparr>) cache tr =
   fetchFromOrigin E origin path req cache tr"
proof (cases "fetchFromOrigin E origin path req cache tr")
  case (Some out)
  then show ?thesis by (simp add: fetch_req_headers_le)
next
  case None
  show ?thesis
  proof (cases "fetchFromOrigin E origin path (req\<lparr>req_headers := hs\<rparr>) cache tr")
    case None
    with \<open>fetchFromOrigin E origin path req cache tr = None\<close> show ?thesis by simp
  next
    case (Some out)
    from fetch_req_headers_le [OF Some, of "req_headers req"]
    have "fetchFromOrigin E origin path req cache tr = Some out" by simp
    with None show ?thesis by simp
  qed
qed

section \<open>The claims\<close>

subsection \<open>C1: the cache key and the request body\<close>

text \<open>
  Claim C1: the derived key is \<open>METHOD|PATH\<close> without a body and
  \<open>METHOD|PATH|hex(sha256(body))\<close> with one, the digest taken over the complete
  body, and this key is the one used for lookup and store.

  The program does not do this. For \<open>POST /a\<close> with body \<open>x\<close> the key returned by
  \<open>generateCacheKey\<close>, which is the key \<open>handleRequest\<close> and \<open>fetchFromOrigin\<close> use,
  is \<open>POST|/a\<close>, whatever the digest function is; it differs from the key the
  specification words.
\<close>

theorem generateCacheKey_omits_body_digest:
  "fst (generateCacheKey sha256 (post_a ''x'')) = ''POST|/a''
   \<and> fst (generateCacheKey sha256 (post_a ''x'')) \<noteq> deriveKey_spec sha256 ''POST'' ''/a'' (Some ''x'')"
  by (simp add: post_a_def deriveKey_spec_def)

subsection \<open>C2: the redirect limit\<close>

text \<open>
  Claim C2: against an origin that answers every hop with a redirect, the redirect
  counter grows from hop to hop, the chase stops once it exceeds 5, and the client
  receives 500 \<open>Too many redirects\<close> after exactly 6 hops.

  The program does not do this. Against the origin that redirects every request to
  \<open>/a\<close>, no call of \<open>fetchFromOrigin\<close> ever returns, from any path, request, cache
  and trace: the client receives nothing.
\<close>

theorem redirect_loop_never_answers:
  "fetchFromOrigin (example_env loop_server) origin path req cache tr = None"
  by (rule always_redirecting_never_returns [OF loop_server_redirecting])
     (simp add: plain_URL_def)

subsection \<open>C3: miss, then hit\<close>

text \<open>
  Claim C3: the first request for a key misses (origin contacted, \<open>X-Cache: MISS\<close>);
  the identical request that follows hits: status 200, the cached headers,
  \<open>X-Cache: HIT\<close>, the same body, and no fetch from the origin.

  The program does not do this when the origin's own response carries an \<open>X-Cache\<close>
  header. Lines 70 and 100 set the signal with \<open>setHeader\<close>, but lines 76 and 101
  then hand the origin's headers to \<open>writeHead\<close>, which take precedence. For
  \<open>GET /a\<close> against an origin that answers 200 with \<open>X-Cache: ORIGIN\<close>, the client
  sees \<open>ORIGIN\<close> and not \<open>MISS\<close> on the first response, and \<open>ORIGIN\<close> and not
  \<open>HIT\<close> on the second, which is served from the cache.
\<close>

theorem origin_x_cache_header_shadows_signal:
  "\<exists>out1 r1 out2 r2.
     handleRequest (example_env xcache_server) ''http://o'' get_a Map.empty = Some out1
     \<and> reply out1 = Inr r1
     \<and> status r1 = 200
     \<and> res_headers r1 ''x-cache'' = Some ''ORIGIN''
     \<and> res_headers r1 ''x-cache'' \<noteq> Some ''MISS''
     \<and> handleRequest (example_env xcache_server) ''http://o'' get_a (store out1) = Some out2
     \<and> trace out2 = [LogChecking ''GET|/a'', LogServing ''GET|/a'']
     \<and> reply out2 = Inr r2
     \<and> status r2 = 200
     \<and> res_headers r2 ''x-cache'' = Some ''ORIGIN''
     \<and> res_headers r2 ''x-cache'' \<noteq> Some ''HIT''"
  by (simp add: handleRequest_def fetchFromOrigin.simps get_a_def xcache_server_def plain_URL_def
        proxyRequest_def writeHead_end_def truthy_def Let_def)

text \<open>
  The same holds for every origin: when the final response to a request that
  missed has a status in \<open>[200,300)\<close> and an \<open>X-Cache\<close> header of its own, the
  client receives the origin's headers as they are on the miss and on the hit that
  follows.
\<close>

lemma origin_x_cache_shadows:
  assumes miss: "cache (fst (generateCacheKey (sha256hex E) req)) = None"
    and target: "new_URL E (url req) origin = Some targetUrl"
    and answer: "origin_server E (proxyRequest targetUrl req) = Answered r"
    and terminal: "\<not> isRedirect r"
    and ok: "cacheable (statusCode r)"
    and own: "headers r ''x-cache'' = Some v"
  shows "\<exists>out. handleRequest E origin req cache = Some out
           \<and> reply out = Inr \<lparr>status = statusCode r, res_headers = headers r,
                               res_body = concat (data r)\<rparr>
           \<and> (\<forall>E' origin'. \<exists>out'. handleRequest E' origin' req (store out) = Some out'
                 \<and> reply out' = Inr \<lparr>status = 200, res_headers = headers r,
                                      res_body = concat (data r)\<rparr>)"
proof -
  let ?key = "method req @ ''|'' @ url req"
  let ?entry = "\<lparr>e_headers = headers r, e_body = concat (data r)\<rparr>"
  have shadow: "[''x-cache'' \<mapsto> w] ++ headers r = headers r" for w
    using own by (intro ext) (simp add: map_add_def split: option.splits)
  from miss have "handleRequest E origin req cache =
      fetchFromOrigin E origin (url req) req cache [LogChecking ?key, LogMiss ?key]"
    by (simp add: handleRequest_miss)
  with fetch_cacheable [OF target answer terminal ok, of cache "[LogChecking ?key, LogMiss ?key]"]
  show ?thesis
    by (simp add: shadow handleRequest_hit [where e = ?entry])
qed

text \<open>
  When the origin's response has no \<open>X-Cache\<close> header of its own, the signal
  reaches the client. If the key is not in the cache and the origin answers the
  request with a response that is not a redirect and has a status in \<open>[200,300)\<close>,
  the request is sent to the origin and the client receives the origin's status,
  headers and body with \<open>X-Cache: MISS\<close>; the same request on the resulting cache is
  answered with status 200, the same headers with \<open>X-Cache: HIT\<close> and the same
  body, without any request to the origin, whatever the origin would answer then.
\<close>

lemma miss_then_hit:
  assumes miss: "cache (fst (generateCacheKey (sha256hex E) req)) = None"
    and target: "new_URL E (url req) origin = Some targetUrl"
    and answer: "origin_server E (proxyRequest targetUrl req) = Answered r"
    and terminal: "\<not> isRedirect r"
    and ok: "cacheable (statusCode r)"
    and plain: "headers r ''x-cache'' = None"
  shows "\<exists>out. handleRequest E origin req cache = Some out
           \<and> Request (proxyRequest targetUrl req) \<in> set (trace out)
           \<and> reply out = Inr \<lparr>status = statusCode r,
                               res_headers = (headers r)(''x-cache'' \<mapsto> ''MISS''),
                               res_body = concat (data r)\<rparr>
           \<and> (\<forall>E' origin'. handleRequest E' origin' req (store out) =
                 Some \<lparr>store = store out,
                       reply = Inr \<lparr>status = 200,
                                    res_headers = (headers r)(''x-cache'' \<mapsto> ''HIT''),
                                    res_body = concat (data r)\<rparr>,
                       trace = [LogChecking (fst (generateCacheKey (sha256hex E) req)),
                                LogServing (fst (generateCacheKey (sha256hex E) req))]\<rparr>)"
proof -
  let ?key = "method req @ ''|'' @ url req"
  let ?entry = "\<lparr>e_headers = headers r, e_body = concat (data r)\<rparr>"
  let ?out = "\<lparr>store = cache(?key \<mapsto> ?entry),
               reply = Inr \<lparr>status = statusCode r,
                            res_headers = [''x-cache'' \<mapsto> ''MISS''] ++ headers r,
                            res_body = concat (data r)\<rparr>,
               trace = [LogChecking ?key, LogMiss ?key] @
                       [Request (proxyRequest targetUrl req), CacheSet ?key ?entry,
                        LogCaching ?key (statusCode r)]\<rparr>"
  from miss have "handleRequest E origin req cache =
      fetchFromOrigin E origin (url req) req cache [LogChecking ?key, LogMiss ?key]"
    by (simp add: handleRequest_miss)
  also have "\<dots> = Some ?out"
    by (rule fetch_cacheable [OF target answer terminal ok])
  finally have first: "handleRequest E origin req cache = Some ?out" .
  have second: "handleRequest E' origin' req (store ?out) =
      Some \<lparr>store = store ?out,
            reply = Inr \<lparr>status = 200, res_headers = [''x-cache'' \<mapsto> ''HIT''] ++ headers r,
                         res_body = concat (data r)\<rparr>,
            trace = [LogChecking ?key, LogServing ?key]\<rparr>" for E' origin'
    by (simp add: handleRequest_hit [where e = ?entry])
  from first second show ?thesis
    by (simp add: map_add_fresh [where m = "headers r", OF plain])
qed

lemma miss_then_hit_example:
  "\<exists>out. handleRequest (example_env ok_server) ''http://o'' get_a Map.empty = Some out
     \<and> Request (proxyRequest \<lparr>href = ''http://o/a'', protocol = ''http:'', url_origin = ''http://o''\<rparr> get_a) \<in> set (trace out)
     \<and> reply out = Inr \<lparr>status = 200, res_headers = [''x-cache'' \<mapsto> ''MISS''], res_body = ''x''\<rparr>
     \<and> (\<forall>E' origin'. handleRequest E' origin' get_a (store out) =
           Some \<lparr>store = store out,
                 reply = Inr \<lparr>status = 200, res_headers = [''x-cache'' \<mapsto> ''HIT''],
                              res_body = ''x''\<rparr>,
                 trace = [LogChecking ''GET|/a'', LogServing ''GET|/a'']\<rparr>)"
  using miss_then_hit [where cache = Map.empty and E = "example_env ok_server" and req = get_a
      and origin = "''http://o''" and targetUrl = "\<lparr>href = ''http://o/a'', protocol = ''http:'', url_origin = ''http://o''\<rparr>"
      and r = "\<lparr>statusCode = 200, headers = Map.empty, data = [''x'']\<rparr>"]
  by (simp add: get_a_def ok_server_def plain_URL_def isRedirect_def cacheable_def truthy_def)

subsection \<open>C4: a redirect followed to a cacheable response\<close>




subsection \<open>C5: the key and differing bodies\<close>

text \<open>
  Claim C5: key derivation is deterministic, and two requests with the same method
  and path but different bodies get different keys.

  The program does not do this. \<open>POST /a\<close> with body \<open>x\<close> and \<open>POST /a\<close> with body
  \<open>y\<close> get the same key, whatever the digest function is; against an origin that
  sends the request body back, the second request is answered from the cache with
  the response to the first.
\<close>

theorem generateCacheKey_same_key_for_different_bodies:
  "chunks (post_a ''x'') \<noteq> chunks (post_a ''y'')
   \<and> fst (generateCacheKey sha256 (post_a ''x'')) = fst (generateCacheKey sha256 (post_a ''y''))
   \<and> handleRequest (example_env echo_server) ''http://o'' (post_a ''x'') Map.empty =
       Some \<lparr>store = [''POST|/a'' \<mapsto> \<lparr>e_headers = Map.empty, e_body = ''x''\<rparr>],
             reply = Inr \<lparr>status = 200, res_headers = [''x-cache'' \<mapsto> ''MISS''], res_body = ''x''\<rparr>,
             trace = [LogChecking ''POST|/a'', LogMiss ''POST|/a'',
                      Request (proxyRequest \<lparr>href = ''http://o/a'', protocol = ''http:'', url_origin = ''http://o''\<rparr> (post_a ''x'')),
                      CacheSet ''POST|/a'' \<lparr>e_headers = Map.empty, e_body = ''x''\<rparr>,
                      LogCaching ''POST|/a'' 200]\<rparr>
   \<and> handleRequest (example_env echo_server) ''http://o'' (post_a ''y'')
         [''POST|/a'' \<mapsto> \<lparr>e_headers = Map.empty, e_body = ''x''\<rparr>] =
       Some \<lparr>store = [''POST|/a'' \<mapsto> \<lparr>e_headers = Map.empty, e_body = ''x''\<rparr>],
             reply = Inr \<lparr>status = 200, res_headers = [''x-cache'' \<mapsto> ''HIT''], res_body = ''x''\<rparr>,
             trace = [LogChecking ''POST|/a'', LogServing ''POST|/a'']\<rparr>"
  by (simp add: handleRequest_def fetchFromOrigin.simps post_a_def echo_server_def plain_URL_def
        proxyRequest_def writeHead_end_def truthy_def Let_def)

subsection \<open>C6: responses that are not cached\<close>

text \<open>
  Claim C6: a final origin response with status outside \<open>[200,300)\<close> is not stored
  and is written through to the client unmodified, with no \<open>X-Cache\<close> header added,
  so that a later identical request misses and fetches again.

  At any hop of a request: when the origin's answer is not a redirect and its
  status is outside \<open>[200,300)\<close>, the call returns, the cache is the one it was
  given, the client receives exactly the origin's status, headers and body, one
  request has gone to the origin, and every later request is handled as it would
  have been on the cache before.
\<close>

theorem non_cacheable_written_through_unstored:
  assumes target: "new_URL E path origin = Some targetUrl"
    and answer: "origin_server E (proxyRequest targetUrl req) = Answered r"
    and terminal: "\<not> isRedirect r"
    and other: "\<not> cacheable (statusCode r)"
  shows "\<exists>out. fetchFromOrigin E origin path req cache tr = Some out
           \<and> store out = cache
           \<and> reply out = Inr \<lparr>status = statusCode r, res_headers = headers r,
                               res_body = concat (data r)\<rparr>
           \<and> trace out = tr @ [Request (proxyRequest targetUrl req),
                                LogNonCacheable (statusCode r) (fst (generateCacheKey (sha256hex E) req))]
           \<and> (\<forall>E' origin' req'. handleRequest E' origin' req' (store out) =
                                  handleRequest E' origin' req' cache)"
  using fetch_other [OF target answer terminal other] by simp

text \<open>
  \<open>GET /a\<close> against an origin that answers 404: the response is written through,
  the cache stays empty, and the same request on the resulting cache has the same
  outcome again, a miss and a fetch.
\<close>

theorem non_cacheable_written_through_unstored_witness:
  "\<exists>out. handleRequest (example_env notfound_server) ''http://o'' get_a Map.empty = Some out
     \<and> store out = Map.empty
     \<and> reply out = Inr \<lparr>status = 404, res_headers = [''content-type'' \<mapsto> ''text/html''],
                         res_body = ''gone''\<rparr>
     \<and> trace out = [LogChecking ''GET|/a'', LogMiss ''GET|/a'',
                     Request (proxyRequest \<lparr>href = ''http://o/a'', protocol = ''http:'', url_origin = ''http://o''\<rparr> get_a),
                     LogNonCacheable 404 ''GET|/a'']
     \<and> handleRequest (example_env notfound_server) ''http://o'' get_a (store out) = Some out"
proof -
  from non_cacheable_written_through_unstored [where E = "example_env notfound_server"
      and path = "''/a''" and origin = "''http://o''" and req = get_a and cache = Map.empty
      and tr = "[LogChecking ''GET|/a'', LogMiss ''GET|/a'']"
      and targetUrl = "\<lparr>href = ''http://o/a'', protocol = ''http:'', url_origin = ''http://o''\<rparr>"
      and r = "\<lparr>statusCode = 404, headers = [''content-type'' \<mapsto> ''text/html''], data = [''gone'']\<rparr>"]
  obtain out where
    run: "fetchFromOrigin (example_env notfound_server) ''http://o'' ''/a'' get_a Map.empty
            [LogChecking ''GET|/a'', LogMiss ''GET|/a''] = Some out"
    and unchanged: "store out = Map.empty"
    and written: "reply out = Inr \<lparr>status = 404, res_headers = [''content-type'' \<mapsto> ''text/html''],
                                    res_body = ''gone''\<rparr>"
    and events: "trace out = [LogChecking ''GET|/a'', LogMiss ''GET|/a'',
                     Request (proxyRequest \<lparr>href = ''http://o/a'', protocol = ''http:'', url_origin = ''http://o''\<rparr> get_a),
                     LogNonCacheable 404 ''GET|/a'']"
    by (auto simp add: get_a_def notfound_server_def plain_URL_def isRedirect_def
          cacheable_def truthy_def)
  from run have "handleRequest (example_env notfound_server) ''http://o'' get_a Map.empty = Some out"
    by (simp add: handleRequest_def get_a_def Let_def)
  with unchanged written events show ?thesis
    by simp
qed

subsection \<open>C7: transport failure\<close>

text \<open>
  Claim C7: on a transport failure talking to the origin the client receives 500
  with \<open>Content-Type: text/plain\<close> and the body \<open>Error fetching from origin: \<close>
  followed by the error's message; the fetch is not retried and the cache is left
  unchanged.

  The program does not do this for every transport failure. The only handlers
  that write to \<open>res\<close> are the \<open>end\<close> handler of the response (line 36) and the
  \<open>error\<close> handler of the request (line 83). For \<open>GET /a\<close> against an origin whose
  connection is lost after the response has started, neither runs: one request has
  gone to the origin, the cache is unchanged, and the client receives no response
  at all, no 500 and no error line.
\<close>

theorem cut_off_response_gets_no_reply:
  "handleRequest (example_env cut_off_server) ''http://o'' get_a Map.empty =
     Some \<lparr>store = Map.empty,
           reply = Inl ResponseCutOff,
           trace = [LogChecking ''GET|/a'', LogMiss ''GET|/a'',
                    Request (proxyRequest \<lparr>href = ''http://o/a'', protocol = ''http:'', url_origin = ''http://o''\<rparr> get_a)]\<rparr>"
  by (simp add: handleRequest_def fetchFromOrigin.simps get_a_def cut_off_server_def plain_URL_def
        Let_def)

text \<open>
  A failure that the request reports through its \<open>error\<close> event is answered as the
  claim says. At any hop of a request: when the request to the origin fails with
  \<open>message\<close>, the call returns the 500 response, the cache is the one it was given,
  and the trace grows by the one request and the error line.
\<close>

lemma transport_failure_is_500:
  assumes target: "new_URL E path origin = Some targetUrl"
    and failure: "origin_server E (proxyRequest targetUrl req) = Failed message"
  shows "fetchFromOrigin E origin path req cache tr =
     Some \<lparr>store = cache,
           reply = Inr \<lparr>status = 500, res_headers = [''content-type'' \<mapsto> ''text/plain''],
                        res_body = ''Error fetching from origin: '' @ message\<rparr>,
           trace = tr @ [Request (proxyRequest targetUrl req), ErrFetching message]\<rparr>"
  by (subst fetchFromOrigin.simps) (simp add: target failure writeHead_end_def)

lemma transport_failure_is_500_example:
  "handleRequest (example_env down_server) ''http://o'' get_a Map.empty =
     Some \<lparr>store = Map.empty,
           reply = Inr \<lparr>status = 500, res_headers = [''content-type'' \<mapsto> ''text/plain''],
                        res_body = ''Error fetching from origin: connect ECONNREFUSED''\<rparr>,
           trace = [LogChecking ''GET|/a'', LogMiss ''GET|/a'',
                    Request (proxyRequest \<lparr>href = ''http://o/a'', protocol = ''http:'', url_origin = ''http://o''\<rparr> get_a),
                    ErrFetching ''connect ECONNREFUSED'']\<rparr>"
  using transport_failure_is_500 [where E = "example_env down_server"
      and path = "''/a''" and origin = "''http://o''" and req = get_a and cache = Map.empty
      and tr = "[LogChecking ''GET|/a'', LogMiss ''GET|/a'']"
      and targetUrl = "\<lparr>href = ''http://o/a'', protocol = ''http:'', url_origin = ''http://o''\<rparr>"
      and message = "''connect ECONNREFUSED''"]
  by (simp add: handleRequest_def get_a_def down_server_def plain_URL_def Let_def)

subsection \<open>C8: one outcome path for each request\<close>

text \<open>
  Claim C8: for every client request exactly one of the four outcome paths (hit,
  cache write, pass-through, error) executes, and the cache is written at most
  once; the hit path leaves the cache unchanged.

  The program does not do this for every request. Against the origin that
  redirects every request to \<open>/a\<close>, \<open>GET /a\<close> on the empty cache never completes:
  none of the four paths executes. For the requests that do receive a response the
  claim holds (\<open>completed_request_one_path\<close>, \<open>handleRequest_hit\<close>).
\<close>

theorem redirect_loop_no_outcome_path:
  "handleRequest (example_env loop_server) ''http://o'' get_a Map.empty = None"
proof -
  have "handleRequest (example_env loop_server) ''http://o'' get_a Map.empty =
      fetchFromOrigin (example_env loop_server) ''http://o'' (url get_a) get_a Map.empty
        [LogChecking (method get_a @ ''|'' @ url get_a), LogMiss (method get_a @ ''|'' @ url get_a)]"
    by (simp add: handleRequest_miss)
  also have "\<dots> = None"
    by (rule always_redirecting_never_returns [OF loop_server_redirecting])
       (simp add: plain_URL_def)
  finally show ?thesis .
qed

subsection \<open>C9: the client's headers are not forwarded\<close>

text \<open>
  Claim C9: the request sent to the origin is built from the client request's
  method, the target URL and the client's body stream only; two client requests
  that differ only in their headers lead to the same request to the origin.

  Replacing the headers of a client request by any others changes neither the
  request built for the origin nor anything else in the handling of the request:
  the outcome, with every request to the origin in its trace, is the same.
\<close>

theorem client_headers_not_forwarded:
  "proxyRequest targetUrl (req\<lparr>req_headers := hs\<rparr>) = proxyRequest targetUrl req
   \<and> handleRequest E origin (req\<lparr>req_headers := hs\<rparr>) cache = handleRequest E origin req cache"
  by (simp add: handleRequest_def Let_def fetch_req_headers split: option.split)

subsection \<open>C10: a 3xx status without a Location\<close>

text \<open>
  Claim C10: an origin response with a 3xx status and no \<open>Location\<close> header is
  final: it is not chased, not stored, and written through with its status, headers
  and body, with no \<open>X-Cache\<close> header added.

  At any hop of a request: the call returns, the cache is the one it was given,
  the client receives exactly the origin's status, headers and body, and the trace
  grows by the one request and the line of the pass-through path.
\<close>

theorem redirect_status_without_location_is_terminal:
  assumes target: "new_URL E path origin = Some targetUrl"
    and answer: "origin_server E (proxyRequest targetUrl req) = Answered r"
    and status3xx: "300 \<le> statusCode r \<and> statusCode r < 400"
    and no_location: "headers r ''location'' = None"
  shows "fetchFromOrigin E origin path req cache tr =
     Some \<lparr>store = cache,
           reply = Inr \<lparr>status = statusCode r, res_headers = headers r,
                        res_body = concat (data r)\<rparr>,
           trace = tr @ [Request (proxyRequest targetUrl req),
                         LogNonCacheable (statusCode r) (fst (generateCacheKey (sha256hex E) req))]\<rparr>"
proof -
  from no_location have "\<not> isRedirect r"
    by (simp add: isRedirect_def truthy_def)
  moreover from status3xx have "\<not> cacheable (statusCode r)"
    by (simp add: cacheable_def)
  ultimately show ?thesis
    using fetch_other [OF target answer] by simp
qed

theorem redirect_status_without_location_is_terminal_witness:
  "handleRequest (example_env not_modified_server) ''http://o'' get_a Map.empty =
     Some \<lparr>store = Map.empty,
           reply = Inr \<lparr>status = 304, res_headers = [''etag'' \<mapsto> ''v1''], res_body = []\<rparr>,
           trace = [LogChecking ''GET|/a'', LogMiss ''GET|/a'',
                    Request (proxyRequest \<lparr>href = ''http://o/a'', protocol = ''http:'', url_origin = ''http://o''\<rparr> get_a),
                    LogNonCacheable 304 ''GET|/a'']\<rparr>"
  using redirect_status_without_location_is_terminal [where E = "example_env not_modified_server"
      and path = "''/a''" and origin = "''http://o''" and req = get_a and cache = Map.empty
      and tr = "[LogChecking ''GET|/a'', LogMiss ''GET|/a'']"
      and targetUrl = "\<lparr>href = ''http://o/a'', protocol = ''http:'', url_origin = ''http://o''\<rparr>"
      and r = "\<lparr>statusCode = 304, headers = [''etag'' \<mapsto> ''v1''], data = []\<rparr>"]
  by (simp add: handleRequest_def get_a_def not_modified_server_def plain_URL_def Let_def)

end
